theory Spec2Isabelle
  imports Main "HOL-Library.Word" "HOL-Library.Stream" "HOL-Library.Sublist"
begin

section \<open>Data model of \<^verbatim>\<open>inspect_ai/util/_subprocess.py\<close>\<close>

text \<open>
  Bytes are lists of 8-bit words. A Python \<^verbatim>\<open>str\<close> value that travels through a pipe is
  represented by its UTF-8 encoding, wrapped in \<open>Str\<close>: \<^verbatim>\<open>s.encode()\<close> unwraps it and
  \<^verbatim>\<open>b.decode()\<close> wraps \<open>b\<close> when \<open>b\<close> is well-formed UTF-8 and raises
  \<^verbatim>\<open>UnicodeDecodeError\<close> otherwise. Command lines, directory names and environment
  variables are never inspected by the module and are plain \<open>string\<close>s.
\<close>

type_synonym byte = "8 word"
type_synonym bytes = "byte list"

datatype py_str = Str bytes

text \<open>The exceptions that leave \<^verbatim>\<open>subprocess\<close>. \<^verbatim>\<open>BrokenPipeError\<close> and
  \<^verbatim>\<open>ConnectionResetError\<close> are the two subclasses of \<^verbatim>\<open>ConnectionError\<close> that a write to
  a pipe whose reading end is gone ends with; \<open>SpawnError\<close> stands for whatever
  \<^verbatim>\<open>create_subprocess_shell\<close> or \<^verbatim>\<open>create_subprocess_exec\<close> raises.\<close>

datatype connection_error = BrokenPipeError | ConnectionResetError

datatype error =
    TimeoutError
  | SpawnError
  | IndexError
  | UnicodeDecodeError
  | ConnectionError connection_error
  | ProcessLookupError

definition continuation :: "byte \<Rightarrow> bool" where
  "continuation b \<longleftrightarrow> 0x80 \<le> b \<and> b \<le> 0xBF"

text \<open>Well-formed UTF-8 as the strict codec of \<^verbatim>\<open>bytes.decode()\<close> accepts it: no
  overlong forms, no surrogates, nothing above U+10FFFF, no truncated sequence.\<close>

fun utf8_valid :: "bytes \<Rightarrow> bool" where
  "utf8_valid [] = True"
| "utf8_valid (b0 # bs) =
    (if b0 \<le> 0x7F then utf8_valid bs
     else if 0xC2 \<le> b0 \<and> b0 \<le> 0xDF then
       (case bs of
          b1 # r \<Rightarrow> continuation b1 \<and> utf8_valid r
        | _ \<Rightarrow> False)
     else if 0xE0 \<le> b0 \<and> b0 \<le> 0xEF then
       (case bs of
          b1 # b2 # r \<Rightarrow>
            (if b0 = 0xE0 then 0xA0 \<le> b1 \<and> b1 \<le> 0xBF
             else if b0 = 0xED then 0x80 \<le> b1 \<and> b1 \<le> 0x9F
             else continuation b1)
            \<and> continuation b2 \<and> utf8_valid r
        | _ \<Rightarrow> False)
     else if 0xF0 \<le> b0 \<and> b0 \<le> 0xF4 then
       (case bs of
          b1 # b2 # b3 # r \<Rightarrow>
            (if b0 = 0xF0 then 0x90 \<le> b1 \<and> b1 \<le> 0xBF
             else if b0 = 0xF4 then 0x80 \<le> b1 \<and> b1 \<le> 0x8F
             else continuation b1)
            \<and> continuation b2 \<and> continuation b3 \<and> utf8_valid r
        | _ \<Rightarrow> False)
     else False)"

definition encode :: "py_str \<Rightarrow> bytes" where
  "encode s = (case s of Str b \<Rightarrow> b)"

definition decode :: "bytes \<Rightarrow> error + py_str" where
  "decode b = (if utf8_valid b then Inr (Str b) else Inl UnicodeDecodeError)"

text \<open>\<^verbatim>\<open>ExecResult\<close> is generic in the type of its two streams; \<^verbatim>\<open>subprocess\<close> returns
  \<^verbatim>\<open>Union[ExecResult[str], ExecResult[bytes]]\<close>.\<close>

record 't ExecResult =
  success :: bool
  returncode :: int
  stdout :: 't
  stderr :: 't

datatype exec_result = TextResult "py_str ExecResult" | BytesResult "bytes ExecResult"

definition result_success :: "exec_result \<Rightarrow> bool" where
  "result_success r = (case r of TextResult t \<Rightarrow> success t | BytesResult b \<Rightarrow> success b)"

definition result_returncode :: "exec_result \<Rightarrow> int" where
  "result_returncode r = (case r of TextResult t \<Rightarrow> returncode t | BytesResult b \<Rightarrow> returncode b)"

definition result_stdout :: "exec_result \<Rightarrow> bytes" where
  "result_stdout r = (case r of TextResult t \<Rightarrow> encode (stdout t) | BytesResult b \<Rightarrow> stdout b)"

definition result_stderr :: "exec_result \<Rightarrow> bytes" where
  "result_stderr r = (case r of TextResult t \<Rightarrow> encode (stderr t) | BytesResult b \<Rightarrow> stderr b)"

text \<open>The parameters of \<^verbatim>\<open>subprocess\<close>. \<^verbatim>\<open>args\<close> is a shell string or an argument vector;
  \<^verbatim>\<open>input\<close> is a \<^verbatim>\<open>str\<close>, \<^verbatim>\<open>bytes\<close> or \<^verbatim>\<open>memoryview\<close>; the parameter \<^verbatim>\<open>text\<close> is called
  \<open>text_mode\<close> here.\<close>

datatype command = Shell string | Argv "string list"

datatype py_input = InStr py_str | InBytes bytes | InMemoryview bytes

record config =
  args :: command
  text_mode :: bool
  input :: "py_input option"
  cwd :: "string option"
  env :: "string \<rightharpoonup> string"
  capture_output :: bool
  output_limit :: "int option"
  timeout :: "int option"

subsection \<open>The operating system as seen by one invocation\<close>

datatype stream_id = Stdout | Stderr

text \<open>What becomes of an \<^verbatim>\<open>await\<close> on the pipe of standard input: it completes, it raises,
  or it stays pending for as long as the child neither reads nor exits.\<close>

datatype stdin_await = Completes | Raises connection_error | Pends

text \<open>
  Everything the module cannot decide itself is a field of \<open>world\<close>:
  the parent's environment and CPU count; whether the child can be created; what becomes
  of \<^verbatim>\<open>proc.stdin.drain()\<close> and of \<^verbatim>\<open>proc.stdin.wait_closed()\<close>, which raise when the child
  has exited or closed its standard input before the parent is done with it; what the
  child delivers on its two output pipes (a stream of arrivals, the empty arrival
  standing for end of file); whether the \<^verbatim>\<open>proc.kill()\<close> of the reader of a stream raises
  \<^verbatim>\<open>ProcessLookupError\<close>, as it does once the child has exited and its transport is
  closed; the status \<^verbatim>\<open>proc.wait()\<close> reports when the child was left alone and the status
  it reports once a reader has killed the child (on POSIX \<open>-9\<close> for a child that the
  signal ended, its own status for a child that had already exited), \<open>None\<close> in both
  cases when \<^verbatim>\<open>proc.wait()\<close> never returns: the child never exits, or the output that the
  reader left unread keeps the transport of a pipe from ever closing; and, for a call
  with a timeout, how many suspension points of the pipeline complete before the deadline
  fires, whether \<^verbatim>\<open>proc.terminate()\<close> and \<^verbatim>\<open>proc.kill()\<close> raise in the timeout handler, and
  whether \<^verbatim>\<open>proc.returncode\<close> is set after the grace period. Real time is not modelled
  beyond this order of events.
\<close>

record world =
  os_environ :: "string \<rightharpoonup> string"
  cpu_count :: "nat option"
  spawn_ok :: bool
  drain_outcome :: stdin_await
  wait_closed_outcome :: stdin_await
  child_stdout :: "bytes stream"
  child_stderr :: "bytes stream"
  reader_kill_raises :: "stream_id \<Rightarrow> bool"
  exit_status :: "int option"
  kill_status :: "int option"
  deadline :: nat
  terminate_raises :: bool
  exited_in_grace :: bool
  kill_raises :: bool

datatype redirect = PIPE | Inherit

record spawn_call =
  sc_shell :: bool
  sc_program :: string
  sc_arguments :: "string list"
  sc_stdin :: redirect
  sc_stdout :: redirect
  sc_stderr :: redirect
  sc_cwd :: "string option"
  sc_env :: "string \<rightharpoonup> string"

record process =
  stdin_pipe :: bool
  stdout_pipe :: "bytes stream option"
  stderr_pipe :: "bytes stream option"

text \<open>The calls the module makes on its collaborators, in the order it makes them. A call
  that is awaited is listed when it completes or raises, a read with the chunk it returned
  and the wait for exit with the status it returned; a call still pending when the
  pipeline is cancelled is not listed. \<open>Spawn\<close> and \<open>Kill\<close> are listed also when they
  fail.\<close>

datatype event =
    Acquire string int
  | Release string
  | TraceEnter command
  | TraceExit
  | Spawn spawn_call
  | StdinWrite bytes
  | StdinDrain
  | StdinClose
  | StdinWaitClosed
  | Read stream_id bytes
  | Kill
  | Wait int
  | Terminate
  | Sleep nat
  | LogWarning

section \<open>The operations\<close>

subsection \<open>\<^verbatim>\<open>run_command\<close> up to its first \<^verbatim>\<open>yield\<close>\<close>

definition resolve_input :: "py_input option \<Rightarrow> bytes option" where
  "resolve_input i =
     (case i of
        None \<Rightarrow> None
      | Some (InStr s) \<Rightarrow> Some (encode s)
      | Some (InBytes b) \<Rightarrow> Some b
      | Some (InMemoryview b) \<Rightarrow> Some b)"

text \<open>\<^verbatim>\<open>asyncio.create_subprocess_shell\<close> and \<^verbatim>\<open>asyncio.create_subprocess_exec\<close>: a pipe
  exists on the process exactly where \<^verbatim>\<open>PIPE\<close> was requested.\<close>

definition create_subprocess :: "world \<Rightarrow> spawn_call \<Rightarrow> error + process" where
  "create_subprocess w sc =
     (if spawn_ok w then
        Inr \<lparr>stdin_pipe = (sc_stdin sc = PIPE),
             stdout_pipe = (if sc_stdout sc = PIPE then Some (child_stdout w) else None),
             stderr_pipe = (if sc_stderr sc = PIPE then Some (child_stderr w) else None)\<rparr>
      else Inl SpawnError)"

text \<open>The keyword arguments common to both calls: \<^verbatim>\<open>stdin\<close> is always a pipe,
  \<^verbatim>\<open>stdout\<close> and \<^verbatim>\<open>stderr\<close> are pipes only when output is captured, and the
  environment is \<^verbatim>\<open>{**os.environ, **env}\<close>.\<close>

definition spawn_call_of ::
  "config \<Rightarrow> world \<Rightarrow> bool \<Rightarrow> string \<Rightarrow> string list \<Rightarrow> spawn_call" where
  "spawn_call_of cfg w sh prog rest =
     \<lparr>sc_shell = sh, sc_program = prog, sc_arguments = rest,
      sc_stdin = PIPE,
      sc_stdout = (if capture_output cfg then PIPE else Inherit),
      sc_stderr = (if capture_output cfg then PIPE else Inherit),
      sc_cwd = cwd cfg,
      sc_env = os_environ w ++ env cfg\<rparr>"

text \<open>A string is run by the shell, a list directly; \<^verbatim>\<open>args[0]\<close> of the empty list
  raises \<^verbatim>\<open>IndexError\<close> before anything is spawned.\<close>

definition run_command_spawn :: "config \<Rightarrow> world \<Rightarrow> event list \<times> (error + process)" where
  "run_command_spawn cfg w =
     (case args cfg of
        Shell s \<Rightarrow>
          ([Spawn (spawn_call_of cfg w True s [])],
           create_subprocess w (spawn_call_of cfg w True s []))
      | Argv [] \<Rightarrow> ([], Inl IndexError)
      | Argv (a # rest) \<Rightarrow>
          ([Spawn (spawn_call_of cfg w False a rest)],
           create_subprocess w (spawn_call_of cfg w False a rest)))"

subsection \<open>\<^verbatim>\<open>run_command\<close> after the \<^verbatim>\<open>yield\<close>\<close>

text \<open>
  Each \<^verbatim>\<open>await\<close> is a suspension point. The functions below take the number of
  suspension points that may still complete and return, with the calls made so far,
  \<open>None\<close> when the pipeline is left pending at an \<^verbatim>\<open>await\<close>, because that number ran
  out or because the \<^verbatim>\<open>await\<close> never completes, and otherwise the exception raised or
  the value together with what is left of that number.
\<close>

text \<open>\<^verbatim>\<open>proc.stdin.close()\<close> and \<^verbatim>\<open>await proc.stdin.wait_closed()\<close>.\<close>

definition close_stdin :: "nat \<Rightarrow> world \<Rightarrow> event list \<times> (error + nat) option" where
  "close_stdin b w =
     (if b = 0 then ([StdinClose], None)
      else
        (case wait_closed_outcome w of
           Pends \<Rightarrow> ([StdinClose], None)
         | Raises e \<Rightarrow> ([StdinClose, StdinWaitClosed], Some (Inl (ConnectionError e)))
         | Completes \<Rightarrow> ([StdinClose, StdinWaitClosed], Some (Inr (b - 1)))))"

text \<open>The block \<^verbatim>\<open>if proc.stdin is not None\<close>: nothing in it is caught, so an exception
  of \<^verbatim>\<open>drain()\<close> leaves the block before \<^verbatim>\<open>close()\<close> is called.\<close>

definition write_stdin ::
  "nat \<Rightarrow> world \<Rightarrow> bytes option \<Rightarrow> process \<Rightarrow> event list \<times> (error + nat) option" where
  "write_stdin b w inp p =
     (if stdin_pipe p then
        (case inp of
           Some d \<Rightarrow>
             (if b = 0 then ([StdinWrite d], None)
              else
                (case drain_outcome w of
                   Pends \<Rightarrow> ([StdinWrite d], None)
                 | Raises e \<Rightarrow> ([StdinWrite d, StdinDrain], Some (Inl (ConnectionError e)))
                 | Completes \<Rightarrow>
                     (case close_stdin (b - 1) w of
                        (es, r) \<Rightarrow> (StdinWrite d # StdinDrain # es, r))))
         | None \<Rightarrow> close_stdin b w)
      else ([], Some (Inr b)))"

text \<open>\<^verbatim>\<open>StreamReader.read(n)\<close>: at most \<open>n\<close> bytes of what has arrived, the rest stays
  buffered; the empty result is end of file.\<close>

definition stream_read :: "nat \<Rightarrow> bytes stream \<Rightarrow> bytes \<times> bytes stream" where
  "stream_read n s =
     (let c = shd s in
      if length c \<le> n then (c, stl s) else (take n c, drop n c ## stl s))"

definition limit_exceeded :: "int option \<Rightarrow> bytes \<Rightarrow> bool" where
  "limit_exceeded lim output =
     (case lim of None \<Rightarrow> False | Some l \<Rightarrow> int (length output) > l)"

text \<open>The loop of \<^verbatim>\<open>read_stream\<close>. It ends at end of file, or at the limit with
  \<^verbatim>\<open>proc.kill()\<close>; \<open>kill_fails\<close> tells whether that call raises. The result is the exception
  or the bytes accumulated and whether the child was killed, with the suspension points
  left.\<close>

fun read_loop ::
  "nat \<Rightarrow> bool \<Rightarrow> int option \<Rightarrow> stream_id \<Rightarrow> bytes \<Rightarrow> bytes stream
     \<Rightarrow> event list \<times> ((error + bytes \<times> bool) \<times> nat) option" where
  "read_loop 0 kill_fails lim sid output s = ([], None)"
| "read_loop (Suc b) kill_fails lim sid output s =
     (let (chunk, s') = stream_read 8192 s in
      if chunk = [] then ([Read sid chunk], Some (Inr (output, False), b))
      else
        (let output' = output @ chunk in
         if limit_exceeded lim output' then
           (if kill_fails then ([Read sid chunk, Kill], Some (Inl ProcessLookupError, b))
            else ([Read sid chunk, Kill], Some (Inr (output', True), b)))
         else (case read_loop b kill_fails lim sid output' s' of
                 (es, r) \<Rightarrow> (Read sid chunk # es, r))))"

definition read_stream ::
  "nat \<Rightarrow> bool \<Rightarrow> int option \<Rightarrow> stream_id \<Rightarrow> bytes stream option
     \<Rightarrow> event list \<times> ((error + bytes \<times> bool) \<times> nat) option" where
  "read_stream b kill_fails lim sid stream =
     (case stream of
        None \<Rightarrow> ([], Some (Inr ([], False), b))
      | Some s \<Rightarrow> read_loop b kill_fails lim sid [] s)"

text \<open>
  \<^verbatim>\<open>asyncio.gather\<close> runs the two readers concurrently; here they advance in lock step,
  one suspension point of each per round, and the calls of the stdout reader are listed
  before those of the stderr reader. When a reader raises, \<^verbatim>\<open>gather\<close> raises that
  exception at once, in the round in which it was raised, and does not wait for the other
  reader: of the two readers the calls up to the end of that round are listed. When both
  raise, the earlier exception is the one raised, that of the stdout reader when they
  raise in the same round.
\<close>

definition raised_at :: "((error + 'a) \<times> nat) option \<Rightarrow> (error \<times> nat) option" where
  "raised_at r = (case r of Some (Inl e, b') \<Rightarrow> Some (e, b') | _ \<Rightarrow> None)"

definition first_raised ::
  "((error + 'a) \<times> nat) option \<Rightarrow> ((error + 'a) \<times> nat) option \<Rightarrow> (error \<times> nat) option" where
  "first_raised r1 r2 =
     (case raised_at r1 of
        None \<Rightarrow> raised_at r2
      | Some (e1, b1) \<Rightarrow>
          (case raised_at r2 of
             None \<Rightarrow> Some (e1, b1)
           | Some (e2, b2) \<Rightarrow> if b1 < b2 then Some (e2, b2) else Some (e1, b1)))"

definition gather_reads ::
  "nat \<Rightarrow> world \<Rightarrow> int option \<Rightarrow> process
     \<Rightarrow> event list \<times> (error + bytes \<times> bytes \<times> bool \<times> nat) option" where
  "gather_reads b w lim p =
     (case read_stream b (reader_kill_raises w Stdout) lim Stdout (stdout_pipe p) of
        (es1, r1) \<Rightarrow>
          (case read_stream b (reader_kill_raises w Stderr) lim Stderr (stderr_pipe p) of
             (es2, r2) \<Rightarrow>
               (case first_raised r1 r2 of
                  Some (e, b') \<Rightarrow>
                    (fst (read_stream (b - b') (reader_kill_raises w Stdout) lim Stdout
                            (stdout_pipe p))
                       @ fst (read_stream (b - b') (reader_kill_raises w Stderr) lim Stderr
                                (stderr_pipe p)),
                     Some (Inl e))
                | None \<Rightarrow>
                    (es1 @ es2,
                     (case r1 of
                        Some (Inr (out, k1), b1) \<Rightarrow>
                          (case r2 of
                             Some (Inr (err, k2), b2) \<Rightarrow>
                               Some (Inr (out, err, k1 \<or> k2, min b1 b2))
                           | _ \<Rightarrow> None)
                      | _ \<Rightarrow> None)))))"

text \<open>\<^verbatim>\<open>await proc.wait()\<close> returns the status of the child once it has one.\<close>

definition proc_wait :: "nat \<Rightarrow> world \<Rightarrow> bool \<Rightarrow> event list \<times> (int \<times> nat) option" where
  "proc_wait b w killed =
     (case (if killed then kill_status w else exit_status w) of
        None \<Rightarrow> ([], None)
      | Some rc \<Rightarrow> (if b = 0 then ([], None) else ([Wait rc], Some (rc, b - 1))))"

definition make_result :: "config \<Rightarrow> int \<Rightarrow> bytes \<Rightarrow> bytes \<Rightarrow> error + exec_result" where
  "make_result cfg rc out err =
     (let ok = (rc = 0) in
      if text_mode cfg then
        (case (if capture_output cfg then decode out else Inr (Str [])) of
           Inl e \<Rightarrow> Inl e
         | Inr so \<Rightarrow>
             (case (if capture_output cfg then decode err else Inr (Str [])) of
                Inl e \<Rightarrow> Inl e
              | Inr se \<Rightarrow>
                  Inr (TextResult \<lparr>success = ok, returncode = rc, stdout = so, stderr = se\<rparr>)))
      else
        Inr (BytesResult \<lparr>success = ok, returncode = rc,
                          stdout = (if capture_output cfg then out else []),
                          stderr = (if capture_output cfg then err else [])\<rparr>))"

definition run_command_rest ::
  "nat \<Rightarrow> config \<Rightarrow> world \<Rightarrow> process \<Rightarrow> event list \<times> (error + exec_result) option" where
  "run_command_rest b cfg w p =
     (case write_stdin b w (resolve_input (input cfg)) p of
        (es0, None) \<Rightarrow> (es0, None)
      | (es0, Some (Inl e)) \<Rightarrow> (es0, Some (Inl e))
      | (es0, Some (Inr b1)) \<Rightarrow>
          (case gather_reads b1 w (output_limit cfg) p of
             (es1, None) \<Rightarrow> (es0 @ es1, None)
           | (es1, Some (Inl e)) \<Rightarrow> (es0 @ es1, Some (Inl e))
           | (es1, Some (Inr (out, err, killed, b2))) \<Rightarrow>
               (case proc_wait b2 w killed of
                  (es2, None) \<Rightarrow> (es0 @ es1 @ es2, None)
                | (es2, Some (rc, b3)) \<Rightarrow>
                    (es0 @ es1 @ es2, Some (make_result cfg rc out err)))))"

subsection \<open>\<^verbatim>\<open>run_command_timeout\<close>\<close>

definition truthy :: "int option \<Rightarrow> bool" where
  "truthy t = (case t of None \<Rightarrow> False | Some n \<Rightarrow> n \<noteq> 0)"

text \<open>The handler of the timeout: \<^verbatim>\<open>terminate\<close>, two seconds of sleep, \<^verbatim>\<open>kill\<close> when
  \<^verbatim>\<open>proc.returncode is None\<close>; an exception of any of them is logged and ends the
  \<^verbatim>\<open>try\<close> block.\<close>

definition terminate_timed_out :: "world \<Rightarrow> event list" where
  "terminate_timed_out w =
     Terminate #
       (if terminate_raises w then [LogWarning]
        else Sleep 2 #
          (if exited_in_grace w then []
           else Kill # (if kill_raises w then [LogWarning] else [])))"

text \<open>
  With a truthy \<^verbatim>\<open>timeout\<close> the pipeline gets the suspension points the world allows
  before the deadline; without one, \<open>fuel\<close> bounds how long the caller is prepared to
  wait, and the call has not returned (\<open>None\<close>) when that is not enough. An exception
  of the pipeline other than the timeout is not caught. Both version branches of the
  source (\<^verbatim>\<open>asyncio.timeout\<close>, \<^verbatim>\<open>asyncio.wait_for\<close>) are this one.
\<close>

definition run_command_timeout ::
  "nat \<Rightarrow> config \<Rightarrow> world \<Rightarrow> (event list \<times> (error + exec_result)) option" where
  "run_command_timeout fuel cfg w =
     (case run_command_spawn cfg w of
        (es, Inl e) \<Rightarrow> Some (es, Inl e)
      | (es, Inr p) \<Rightarrow>
          (if truthy (timeout cfg) then
             (case run_command_rest (deadline w) cfg w p of
                (es', Some r) \<Rightarrow> Some (es @ es', r)
              | (es', None) \<Rightarrow> Some (es @ es' @ terminate_timed_out w, Inl TimeoutError))
           else
             (case run_command_rest fuel cfg w p of
                (es', Some r) \<Rightarrow> Some (es @ es', r)
              | (es', None) \<Rightarrow> None)))"

subsection \<open>The configured maximum and \<^verbatim>\<open>subprocess\<close>\<close>

definition default_max_subprocesses :: "world \<Rightarrow> int" where
  "default_max_subprocesses w =
     (case cpu_count w of None \<Rightarrow> 1 | Some cpus \<Rightarrow> if cpus \<noteq> 0 then int cpus else 1)"

text \<open>The context variable holds the value last set, or nothing; \<^verbatim>\<open>get()\<close> falls back
  to the default given at its creation.\<close>

type_synonym context_var = "int option"

definition context_var_get :: "world \<Rightarrow> context_var \<Rightarrow> int" where
  "context_var_get w var = (case var of Some v \<Rightarrow> v | None \<Rightarrow> default_max_subprocesses w)"


text \<open>Modelled from the spec: the context manager \<^verbatim>\<open>concurrency\<close> of
  \<^verbatim>\<open>inspect_ai/util/_concurrency.py\<close> is not part of the sources. Entering it acquires
  one slot of the named gate under the given limit, leaving it releases that slot.\<close>

definition concurrency_enter :: "string \<Rightarrow> int \<Rightarrow> event list" where
  "concurrency_enter name limit = [Acquire name limit]"

definition concurrency_exit :: "string \<Rightarrow> event list" where
  "concurrency_exit name = [Release name]"

definition subprocess ::
  "nat \<Rightarrow> context_var \<Rightarrow> config \<Rightarrow> world \<Rightarrow> (event list \<times> (error + exec_result)) option" where
  "subprocess fuel var cfg w =
     (case run_command_timeout fuel cfg w of
        None \<Rightarrow> None
      | Some (es, r) \<Rightarrow>
          Some (concurrency_enter ''subprocesses'' (context_var_get w var)
                  @ [TraceEnter (args cfg)] @ es @ [TraceExit]
                  @ concurrency_exit ''subprocesses'',
                r))"

subsection \<open>Reading a trace\<close>

text \<open>The chunks that the reads of one stream returned, in order, and the calls made on the
  child's standard input.\<close>

fun chunks_read :: "stream_id \<Rightarrow> event list \<Rightarrow> bytes list" where
  "chunks_read sid [] = []"
| "chunks_read sid (Read s c # es) =
     (if s = sid then c # chunks_read sid es else chunks_read sid es)"
| "chunks_read sid (e # es) = chunks_read sid es"

fun is_stdin_call :: "event \<Rightarrow> bool" where
  "is_stdin_call (StdinWrite d) = True"
| "is_stdin_call StdinDrain = True"
| "is_stdin_call StdinClose = True"
| "is_stdin_call StdinWaitClosed = True"
| "is_stdin_call e = False"

definition stdin_calls :: "event list \<Rightarrow> event list" where
  "stdin_calls tr = filter is_stdin_call tr"


subsection \<open>Concrete invocations\<close>

text \<open>The scenario of the specification: \<^verbatim>\<open>["echo", "hi"]\<close> in text mode, on a host with
  four CPUs, where the child writes \<^verbatim>\<open>hi\<close> and a newline and exits with status 0.\<close>

definition echo_cfg :: config where
  "echo_cfg = \<lparr>args = Argv [''echo'', ''hi''], text_mode = True, input = None, cwd = None,
               env = [''LANG'' \<mapsto> ''C''], capture_output = True, output_limit = None,
               timeout = None\<rparr>"

definition echo_world :: world where
  "echo_world = \<lparr>os_environ = [''HOME'' \<mapsto> ''/root'', ''LANG'' \<mapsto> ''en_US''],
                 cpu_count = Some 4, spawn_ok = True,
                 drain_outcome = Completes, wait_closed_outcome = Completes,
                 child_stdout = [[0x68, 0x69, 0x0A]] @- sconst [],
                 child_stderr = sconst [], reader_kill_raises = (\<lambda>sid. False),
                 exit_status = Some 0, kill_status = Some (- 9), deadline = 0,
                 terminate_raises = False, exited_in_grace = False, kill_raises = False\<rparr>"

definition echo_trace :: "int \<Rightarrow> config \<Rightarrow> world \<Rightarrow> event list" where
  "echo_trace limit cfg w =
     [Acquire ''subprocesses'' limit, TraceEnter (Argv [''echo'', ''hi'']),
      Spawn (spawn_call_of cfg w False ''echo'' [''hi''])]"

section \<open>Properties\<close>

subsection \<open>Parameters that do not matter\<close>

lemma make_result_timeout_irrelevant:
  "make_result (cfg\<lparr>timeout := t\<rparr>) rc out err = make_result cfg rc out err"
  by (simp add: make_result_def)

lemma run_command_rest_timeout_irrelevant:
  "run_command_rest b (cfg\<lparr>timeout := t\<rparr>) w p = run_command_rest b cfg w p"
  by (simp add: run_command_rest_def make_result_timeout_irrelevant
      cong: prod.case_cong option.case_cong sum.case_cong)

lemma spawn_call_of_timeout_irrelevant:
  "spawn_call_of (cfg\<lparr>timeout := t\<rparr>) w sh prog rest = spawn_call_of cfg w sh prog rest"
  by (simp add: spawn_call_of_def)

lemma run_command_spawn_timeout_irrelevant:
  "run_command_spawn (cfg\<lparr>timeout := t\<rparr>) w = run_command_spawn cfg w"
  by (simp add: run_command_spawn_def spawn_call_of_timeout_irrelevant
      cong: command.case_cong list.case_cong)

lemma run_command_timeout_falsy:
  "\<not> truthy t \<Longrightarrow>
   run_command_timeout fuel (cfg\<lparr>timeout := t\<rparr>) w =
     (case run_command_spawn cfg w of
        (es, Inl e) \<Rightarrow> Some (es, Inl e)
      | (es, Inr p) \<Rightarrow>
          (case run_command_rest fuel cfg w p of
             (es', Some r) \<Rightarrow> Some (es @ es', r)
           | (es', None) \<Rightarrow> None))"
  by (simp add: run_command_timeout_def run_command_spawn_timeout_irrelevant
      run_command_rest_timeout_irrelevant cong: prod.case_cong sum.case_cong)

lemma proc_wait_deadline_irrelevant:
  "proc_wait b (w\<lparr>deadline := d\<rparr>) k = proc_wait b w k"
  by (simp add: proc_wait_def)

lemma close_stdin_deadline_irrelevant:
  "close_stdin b (w\<lparr>deadline := d\<rparr>) = close_stdin b w"
  by (simp add: close_stdin_def)

lemma write_stdin_deadline_irrelevant:
  "write_stdin b (w\<lparr>deadline := d\<rparr>) inp p = write_stdin b w inp p"
  by (simp add: write_stdin_def close_stdin_deadline_irrelevant
      cong: option.case_cong stdin_await.case_cong if_cong)

lemma gather_reads_deadline_irrelevant:
  "gather_reads b (w\<lparr>deadline := d\<rparr>) lim p = gather_reads b w lim p"
  by (simp add: gather_reads_def cong: prod.case_cong option.case_cong)

lemma run_command_rest_deadline_irrelevant:
  "run_command_rest b cfg (w\<lparr>deadline := d\<rparr>) p = run_command_rest b cfg w p"
  by (simp add: run_command_rest_def proc_wait_deadline_irrelevant
      write_stdin_deadline_irrelevant gather_reads_deadline_irrelevant
      cong: prod.case_cong option.case_cong sum.case_cong)

lemma default_max_subprocesses_deadline_irrelevant:
  "default_max_subprocesses (w\<lparr>deadline := d\<rparr>) = default_max_subprocesses w"
  by (simp add: default_max_subprocesses_def)

lemma create_subprocess_deadline_irrelevant:
  "create_subprocess (w\<lparr>deadline := d\<rparr>) sc = create_subprocess w sc"
  by (simp add: create_subprocess_def)

lemma spawn_call_of_deadline_irrelevant:
  "spawn_call_of cfg (w\<lparr>deadline := d\<rparr>) sh prog rest = spawn_call_of cfg w sh prog rest"
  by (simp add: spawn_call_of_def)

lemma run_command_spawn_deadline_irrelevant:
  "run_command_spawn cfg (w\<lparr>deadline := d\<rparr>) = run_command_spawn cfg w"
  by (simp add: run_command_spawn_def create_subprocess_deadline_irrelevant
      spawn_call_of_deadline_irrelevant cong: command.case_cong list.case_cong)

lemma context_var_get_deadline_irrelevant:
  "context_var_get (w\<lparr>deadline := d\<rparr>) var = context_var_get w var"
  by (simp add: context_var_get_def default_max_subprocesses_deadline_irrelevant
      cong: option.case_cong)

subsection \<open>Results and errors\<close>

lemma make_result_error:
  "make_result cfg rc out err = Inl e \<Longrightarrow> e = UnicodeDecodeError"
  by (auto simp: make_result_def decode_def Let_def split: if_splits sum.splits)

lemma create_subprocess_error:
  "create_subprocess w sc = Inl e \<Longrightarrow> e = SpawnError"
  by (simp add: create_subprocess_def split: if_splits)

lemma run_command_spawn_error:
  "run_command_spawn cfg w = (es, Inl e) \<Longrightarrow> e = SpawnError \<or> e = IndexError"
  by (auto simp: run_command_spawn_def split: command.splits list.splits
      dest: create_subprocess_error)

lemma subprocess_timeout_irrelevant:
  "\<not> truthy t \<Longrightarrow> \<not> truthy t' \<Longrightarrow>
   subprocess fuel var (cfg\<lparr>timeout := t\<rparr>) w = subprocess fuel var (cfg\<lparr>timeout := t'\<rparr>) w"
  by (simp add: subprocess_def run_command_timeout_falsy cong: option.case_cong prod.case_cong)

lemma make_result_InrD:
  assumes "make_result cfg rc out err = Inr r"
  shows "result_returncode r = rc \<and> result_success r = (rc = 0)
       \<and> result_stdout r = (if capture_output cfg then out else [])
       \<and> result_stderr r = (if capture_output cfg then err else [])
       \<and> (text_mode cfg \<longrightarrow> (\<exists>t. r = TextResult t))
       \<and> (\<not> text_mode cfg \<longrightarrow> (\<exists>t. r = BytesResult t))"
  using assms
  by (auto simp: make_result_def decode_def encode_def Let_def result_returncode_def
      result_success_def result_stdout_def result_stderr_def split: if_splits sum.splits)

lemma make_result_no_capture:
  assumes "\<not> capture_output cfg"
  shows "make_result cfg rc out err =
           Inr (if text_mode cfg
                then TextResult \<lparr>success = (rc = 0), returncode = rc, stdout = Str [], stderr = Str []\<rparr>
                else BytesResult \<lparr>success = (rc = 0), returncode = rc, stdout = [], stderr = []\<rparr>)"
  using assms by (simp add: make_result_def)




subsection \<open>The two readers\<close>

lemma stream_read_length:
  "stream_read n s = (chunk, s') \<Longrightarrow> length chunk \<le> n"
  by (auto simp: stream_read_def Let_def split: if_splits)

lemma read_loop_events:
  "read_loop b kf lim sid acc s = (es, r) \<Longrightarrow> e \<in> set es \<Longrightarrow> e = Kill \<or> (\<exists>c. e = Read sid c)"
proof (induction b arbitrary: acc s es)
  case 0
  then show ?case by simp
next
  case (Suc b)
  then show ?case
    by (fastforce simp: Let_def split: prod.splits if_splits)
qed

lemma read_loop_killed:
  "read_loop b kf lim sid acc s = (es, Some (Inr (out, k), b')) \<Longrightarrow> k \<longleftrightarrow> Kill \<in> set es"
proof (induction b arbitrary: acc s es)
  case 0
  then show ?case by simp
next
  case (Suc b)
  show ?case
  proof (cases "fst (stream_read 8192 s) = []")
    case True
    with Suc.prems show ?thesis by (auto simp: Let_def split: prod.splits)
  next
    case False
    note ne = this
    show ?thesis
    proof (cases "limit_exceeded lim (acc @ fst (stream_read 8192 s))")
      case True
      with ne Suc.prems show ?thesis by (auto simp: Let_def split: prod.splits if_splits)
    next
      case False
      with ne Suc.prems obtain es' where
        rec: "read_loop b kf lim sid (acc @ fst (stream_read 8192 s)) (snd (stream_read 8192 s))
                = (es', Some (Inr (out, k), b'))"
        and es: "es = Read sid (fst (stream_read 8192 s)) # es'"
        by (auto simp: Let_def split: prod.splits)
      from Suc.IH[OF rec] es show ?thesis by simp
    qed
  qed
qed

text \<open>A reader raises only through a \<^verbatim>\<open>proc.kill()\<close> that fails, which is then its last
  call.\<close>

lemma read_loop_raised:
  "read_loop b kf lim sid acc s = (es, Some (Inl e, b')) \<Longrightarrow>
     e = ProcessLookupError \<and> kf \<and> lim \<noteq> None \<and> es \<noteq> [] \<and> last es = Kill"
proof (induction b arbitrary: acc s es)
  case 0
  then show ?case by simp
next
  case (Suc b)
  obtain chunk s' where sr: "stream_read 8192 s = (chunk, s')"
    by (cases "stream_read 8192 s")
  show ?case
  proof (cases "chunk = []")
    case True
    with Suc.prems sr show ?thesis by auto
  next
    case False
    show ?thesis
    proof (cases "limit_exceeded lim (acc @ chunk)")
      case True
      with False Suc.prems sr show ?thesis
        by (auto simp: Let_def limit_exceeded_def split: if_splits option.splits)
    next
      case nex: False
      with False Suc.prems sr obtain es' where
        rec: "read_loop b kf lim sid (acc @ chunk) s' = (es', Some (Inl e, b'))"
        and es: "es = Read sid chunk # es'"
        by (auto simp: Let_def split: prod.splits)
      from Suc.IH[OF rec] es show ?thesis by simp
    qed
  qed
qed


lemma chunks_read_append [simp]:
  "chunks_read sid (xs @ ys) = chunks_read sid xs @ chunks_read sid ys"
  by (induction sid xs rule: chunks_read.induct) simp_all

lemma chunks_read_none:
  "(\<And>c. Read sid c \<notin> set es) \<Longrightarrow> chunks_read sid es = []"
  by (induction sid es rule: chunks_read.induct) auto

lemma read_loop_retains:
  "read_loop b kf lim sid acc s = (es, Some (Inr (out, k), b')) \<Longrightarrow>
     out = acc @ concat (chunks_read sid es)"
proof (induction b arbitrary: acc s es)
  case 0
  then show ?case by simp
next
  case (Suc b)
  obtain chunk s' where sr: "stream_read 8192 s = (chunk, s')"
    by (cases "stream_read 8192 s")
  show ?case
  proof (cases "chunk = []")
    case True
    with Suc.prems sr show ?thesis by auto
  next
    case False
    show ?thesis
    proof (cases "limit_exceeded lim (acc @ chunk)")
      case True
      with False Suc.prems sr show ?thesis by (auto simp: Let_def split: if_splits)
    next
      case nex: False
      with False Suc.prems sr obtain es' where
        rec: "read_loop b kf lim sid (acc @ chunk) s' = (es', Some (Inr (out, k), b'))"
        and es: "es = Read sid chunk # es'"
        by (auto simp: Let_def split: prod.splits)
      from Suc.IH[OF rec] es show ?thesis by simp
    qed
  qed
qed

text \<open>While the loop runs, what has been accumulated is within the limit or is still empty.\<close>

lemma read_loop_limit:
  assumes "read_loop b kf (Some L) sid acc s = (es, Some (Inr (out, k), b'))"
    and "int (length acc) \<le> max L 0"
  shows "chunks_read sid es \<noteq> []
       \<and> int (length acc + length (concat (butlast (chunks_read sid es)))) \<le> max L 0
       \<and> length (last (chunks_read sid es)) \<le> 8192
       \<and> (k \<longrightarrow> int (length out) > L \<and> es \<noteq> [] \<and> last es = Kill)
       \<and> (\<not> k \<longrightarrow> int (length out) \<le> max L 0 \<and> es \<noteq> [] \<and> last es = Read sid [])"
  using assms
proof (induction b arbitrary: acc s es)
  case 0
  then show ?case by simp
next
  case (Suc b)
  obtain chunk s' where sr: "stream_read 8192 s = (chunk, s')"
    by (cases "stream_read 8192 s")
  note len = stream_read_length[OF sr]
  show ?case
  proof (cases "chunk = []")
    case True
    with Suc.prems sr show ?thesis by auto
  next
    case False
    show ?thesis
    proof (cases "limit_exceeded (Some L) (acc @ chunk)")
      case True
      with False Suc.prems sr len show ?thesis
        by (auto simp: Let_def limit_exceeded_def split: if_splits)
    next
      case nex: False
      with False Suc.prems sr obtain es' where
        rec: "read_loop b kf (Some L) sid (acc @ chunk) s' = (es', Some (Inr (out, k), b'))"
        and es: "es = Read sid chunk # es'"
        by (auto simp: Let_def split: prod.splits)
      from nex have inv: "int (length (acc @ chunk)) \<le> max L 0"
        by (simp add: limit_exceeded_def)
      from Suc.IH[OF rec inv] es show ?thesis
        by auto
    qed
  qed
qed

lemma read_loop_bound:
  assumes "read_loop b kf (Some L) sid [] s = (es, Some (Inr (out, k), b'))"
  shows "int (length out) \<le> max L 0 + 8192"
proof -
  have "int (length ([]::bytes)) \<le> max L 0" by simp
  from read_loop_limit[OF assms this] have
    ne: "chunks_read sid es \<noteq> []"
    and pre: "int (length (concat (butlast (chunks_read sid es)))) \<le> max L 0"
    and lst: "length (last (chunks_read sid es)) \<le> 8192"
    by simp_all
  from read_loop_retains[OF assms] have "out = concat (chunks_read sid es)" by simp
  also from ne have "chunks_read sid es = butlast (chunks_read sid es) @ [last (chunks_read sid es)]"
    by simp
  finally have "length out = length (concat (butlast (chunks_read sid es)))
      + length (last (chunks_read sid es))"
    by (metis concat_append concat.simps append_Nil2 length_append)
  with pre lst show ?thesis by linarith
qed

lemma read_stream_events:
  "read_stream b kf lim sid stream = (es, r) \<Longrightarrow> e \<in> set es \<Longrightarrow>
     stream \<noteq> None \<and> (e = Kill \<or> (\<exists>c. e = Read sid c))"
  by (auto simp: read_stream_def split: option.splits dest: read_loop_events)

lemma read_stream_killed:
  "read_stream b kf lim sid stream = (es, Some (Inr (out, k), b')) \<Longrightarrow> k \<longleftrightarrow> Kill \<in> set es"
  by (auto simp: read_stream_def split: option.splits dest: read_loop_killed)

lemma read_stream_raised:
  "read_stream b kf lim sid stream = (es, Some (Inl e, b')) \<Longrightarrow>
     e = ProcessLookupError \<and> kf \<and> lim \<noteq> None \<and> stream \<noteq> None \<and> es \<noteq> [] \<and> last es = Kill"
  by (auto simp: read_stream_def split: option.splits dest: read_loop_raised)



lemma chunks_read_stream:
  assumes "read_stream b kf lim sid stream = (es, r)" and "sid' \<noteq> sid"
  shows "chunks_read sid' es = []"
proof (rule chunks_read_none)
  fix c show "Read sid' c \<notin> set es"
    using read_stream_events[OF assms(1)] assms(2) by auto
qed

lemma first_raised_NoneD:
  "first_raised r1 r2 = None \<Longrightarrow> raised_at r1 = None \<and> raised_at r2 = None"
  by (auto simp: first_raised_def split: option.splits prod.splits if_splits)

lemma first_raised_SomeD:
  "first_raised r1 r2 = Some (e, b') \<Longrightarrow> r1 = Some (Inl e, b') \<or> r2 = Some (Inl e, b')"
  by (auto simp: first_raised_def raised_at_def
      split: option.splits prod.splits sum.splits if_splits)

lemma first_raised_Inr [simp]:
  "first_raised (Some (Inr x, b1)) (Some (Inr y, b2)) = None"
  by (simp add: first_raised_def raised_at_def)

lemma gather_reads_events:
  assumes "gather_reads b w lim p = (es, r)" and "e \<in> set es"
  shows "(stdout_pipe p \<noteq> None \<or> stderr_pipe p \<noteq> None) \<and> (e = Kill \<or> (\<exists>sid c. e = Read sid c))"
proof -
  obtain es1 r1 es2 r2 where
    r1: "read_stream b (reader_kill_raises w Stdout) lim Stdout (stdout_pipe p) = (es1, r1)"
    and r2: "read_stream b (reader_kill_raises w Stderr) lim Stderr (stderr_pipe p) = (es2, r2)"
    by (metis surj_pair)
  have "e \<in> set es1 \<or> e \<in> set es2
      \<or> (\<exists>b'. e \<in> set (fst (read_stream b' (reader_kill_raises w Stdout) lim Stdout
                                 (stdout_pipe p)))
             \<or> e \<in> set (fst (read_stream b' (reader_kill_raises w Stderr) lim Stderr
                                 (stderr_pipe p))))"
    using assms r1 r2
    by (auto simp: gather_reads_def split: option.splits prod.splits)
  then show ?thesis
    using read_stream_events[OF r1] read_stream_events[OF r2]
      read_stream_events[OF prod.collapse[symmetric]]
    by blast
qed

lemma gather_reads_SomeD:
  assumes "gather_reads b w lim p = (es, Some (Inr (out, err, k, b')))"
  shows "\<exists>es1 es2 k1 k2 b1 b2.
           read_stream b (reader_kill_raises w Stdout) lim Stdout (stdout_pipe p)
             = (es1, Some (Inr (out, k1), b1))
         \<and> read_stream b (reader_kill_raises w Stderr) lim Stderr (stderr_pipe p)
             = (es2, Some (Inr (err, k2), b2))
         \<and> es = es1 @ es2 \<and> k = (k1 \<or> k2) \<and> b' = min b1 b2"
  using assms
  by (auto simp: gather_reads_def split: prod.splits option.splits sum.splits)

lemma gather_reads_killed:
  assumes "gather_reads b w lim p = (es, Some (Inr (out, err, k, b')))"
  shows "k \<longleftrightarrow> Kill \<in> set es"
  using gather_reads_SomeD[OF assms] by (auto dest: read_stream_killed)


text \<open>The only exception of the readers is that of a \<^verbatim>\<open>proc.kill()\<close> at the limit.\<close>

lemma gather_reads_error:
  assumes "gather_reads b w lim p = (es, Some (Inl e))"
  shows "e = ProcessLookupError \<and> lim \<noteq> None
       \<and> (stdout_pipe p \<noteq> None \<and> reader_kill_raises w Stdout
           \<or> stderr_pipe p \<noteq> None \<and> reader_kill_raises w Stderr)"
proof -
  obtain es1 r1 es2 r2 where
    r1: "read_stream b (reader_kill_raises w Stdout) lim Stdout (stdout_pipe p) = (es1, r1)"
    and r2: "read_stream b (reader_kill_raises w Stderr) lim Stderr (stderr_pipe p) = (es2, r2)"
    by (metis surj_pair)
  from assms r1 r2 obtain b' where "first_raised r1 r2 = Some (e, b')"
    by (auto simp: gather_reads_def split: option.splits prod.splits sum.splits)
  from first_raised_SomeD[OF this] r1 r2 show ?thesis
    by (auto dest: read_stream_raised)
qed

subsection \<open>Standard input and the wait for exit\<close>

lemma close_stdin_events:
  "close_stdin b w = (es, r) \<Longrightarrow> e \<in> set es \<Longrightarrow> e = StdinClose \<or> e = StdinWaitClosed"
  by (auto simp: close_stdin_def split: stdin_await.splits if_splits)

lemma write_stdin_events:
  "write_stdin b w inp p = (es, r) \<Longrightarrow> e \<in> set es \<Longrightarrow>
     e = StdinDrain \<or> e = StdinClose \<or> e = StdinWaitClosed \<or> (\<exists>d. inp = Some d \<and> e = StdinWrite d)"
  by (auto simp: write_stdin_def split: option.splits stdin_await.splits if_splits prod.splits
      dest: close_stdin_events)

lemma write_stdin_error:
  "write_stdin b w inp p = (es, Some (Inl e)) \<Longrightarrow>
     \<exists>c. e = ConnectionError c \<and> (drain_outcome w = Raises c \<or> wait_closed_outcome w = Raises c)"
  by (auto simp: write_stdin_def close_stdin_def
      split: option.splits stdin_await.splits if_splits prod.splits)

lemma chunks_read_stdin:
  assumes "write_stdin b w inp p = (es, r)"
  shows "chunks_read sid es = []"
proof (rule chunks_read_none)
  fix c show "Read sid c \<notin> set es"
    using write_stdin_events[OF assms] by auto
qed

lemma kill_not_stdin:
  assumes "write_stdin b w inp p = (es, r)"
  shows "Kill \<notin> set es"
  using write_stdin_events[OF assms] by auto

lemma stdin_calls_Nil [simp]: "stdin_calls [] = []"
  by (simp add: stdin_calls_def)

lemma stdin_calls_append [simp]:
  "stdin_calls (xs @ ys) = stdin_calls xs @ stdin_calls ys"
  by (simp add: stdin_calls_def)





lemma proc_wait_SomeD:
  assumes "proc_wait b w killed = (es, Some (rc, b'))"
  shows "es = [Wait rc] \<and> (if killed then kill_status w else exit_status w) = Some rc
         \<and> b = Suc b'"
  using assms
  by (auto simp: proc_wait_def split: option.splits if_splits)


lemma proc_wait_events:
  "proc_wait b w killed = (es, r) \<Longrightarrow> e \<in> set es \<Longrightarrow> \<exists>rc. e = Wait rc"
  by (auto simp: proc_wait_def split: option.splits if_splits)



lemma terminate_timed_out_events:
  "e \<in> set (terminate_timed_out w) \<Longrightarrow>
     e = Terminate \<or> e = Sleep 2 \<or> e = Kill \<or> e = LogWarning"
  by (auto simp: terminate_timed_out_def split: if_splits)

subsection \<open>What a returned trace looks like\<close>

lemma subprocess_SomeD:
  assumes "subprocess fuel var cfg w = Some (tr, out)"
  shows "\<exists>es. run_command_timeout fuel cfg w = Some (es, out) \<and>
           tr = Acquire ''subprocesses'' (context_var_get w var) # TraceEnter (args cfg) # es
                  @ [TraceExit, Release ''subprocesses'']"
  using assms
  by (auto simp: subprocess_def concurrency_enter_def concurrency_exit_def split: option.splits)

lemma subprocess_I:
  assumes "run_command_timeout fuel cfg w = Some (es, out)"
  shows "subprocess fuel var cfg w =
           Some (Acquire ''subprocesses'' (context_var_get w var) # TraceEnter (args cfg) # es
                   @ [TraceExit, Release ''subprocesses''], out)"
  using assms by (simp add: subprocess_def concurrency_enter_def concurrency_exit_def)

lemma run_command_timeout_SomeD:
  assumes "run_command_timeout fuel cfg w = Some (es, out)"
  shows "(\<exists>e. run_command_spawn cfg w = (es, Inl e) \<and> out = Inl e)
       \<or> (\<exists>es0 p es1. run_command_spawn cfg w = (es0, Inr p) \<and>
            (if truthy (timeout cfg) then
               (run_command_rest (deadline w) cfg w p = (es1, Some out) \<and> es = es0 @ es1)
               \<or> (run_command_rest (deadline w) cfg w p = (es1, None) \<and> out = Inl TimeoutError
                   \<and> es = es0 @ es1 @ terminate_timed_out w)
             else run_command_rest fuel cfg w p = (es1, Some out) \<and> es = es0 @ es1))"
  using assms
  by (auto simp: run_command_timeout_def split: prod.splits sum.splits option.splits if_splits)

lemma run_command_timeout_budget:
  assumes "run_command_timeout fuel cfg w = Some (es, out)"
  shows "(\<exists>e. run_command_spawn cfg w = (es, Inl e) \<and> out = Inl e)
       \<or> (\<exists>es0 p es1. run_command_spawn cfg w = (es0, Inr p) \<and>
            ((run_command_rest (if truthy (timeout cfg) then deadline w else fuel) cfg w p
                = (es1, Some out) \<and> es = es0 @ es1)
             \<or> (truthy (timeout cfg) \<and> run_command_rest (deadline w) cfg w p = (es1, None)
                 \<and> out = Inl TimeoutError \<and> es = es0 @ es1 @ terminate_timed_out w)))"
  using run_command_timeout_SomeD[OF assms] by (auto split: if_splits)


lemma run_command_timeout_expired:
  assumes "truthy (timeout cfg)" and "run_command_spawn cfg w = (es0, Inr p)"
    and "run_command_rest (deadline w) cfg w p = (es1, None)"
  shows "run_command_timeout fuel cfg w
           = Some (es0 @ es1 @ terminate_timed_out w, Inl TimeoutError)"
  using assms by (simp add: run_command_timeout_def)

lemma run_command_timeout_result:
  assumes "run_command_timeout fuel cfg w = Some (es, Inr r)"
  shows "\<exists>es0 p es1. run_command_spawn cfg w = (es0, Inr p)
          \<and> run_command_rest (if truthy (timeout cfg) then deadline w else fuel) cfg w p
               = (es1, Some (Inr r))
          \<and> es = es0 @ es1"
  using run_command_timeout_budget[OF assms] by auto

lemma run_command_spawn_events:
  assumes "run_command_spawn cfg w = (es, r)"
  shows "(es = [] \<and> r = Inl IndexError \<and> args cfg = Argv [])
       \<or> (\<exists>sc. es = [Spawn sc] \<and> r = create_subprocess w sc
             \<and> sc_env sc = os_environ w ++ env cfg
             \<and> sc_cwd sc = cwd cfg
             \<and> sc_stdin sc = PIPE
             \<and> sc_stdout sc = (if capture_output cfg then PIPE else Inherit)
             \<and> sc_stderr sc = (if capture_output cfg then PIPE else Inherit))"
proof (cases "args cfg")
  case (Shell s)
  with assms have "es = [Spawn (spawn_call_of cfg w True s [])]"
    "r = create_subprocess w (spawn_call_of cfg w True s [])"
    by (simp_all add: run_command_spawn_def)
  then show ?thesis by (simp add: spawn_call_of_def)
next
  case (Argv xs)
  show ?thesis
  proof (cases xs)
    case Nil
    with Argv assms show ?thesis by (simp add: run_command_spawn_def)
  next
    case (Cons a rest)
    with Argv assms have "es = [Spawn (spawn_call_of cfg w False a rest)]"
      "r = create_subprocess w (spawn_call_of cfg w False a rest)"
      by (simp_all add: run_command_spawn_def)
    then show ?thesis by (simp add: spawn_call_of_def)
  qed
qed

lemma spawned_pipes:
  assumes "run_command_spawn cfg w = ([Spawn sc], Inr p)"
  shows "stdin_pipe p
       \<and> stdout_pipe p = (if capture_output cfg then Some (child_stdout w) else None)
       \<and> stderr_pipe p = (if capture_output cfg then Some (child_stderr w) else None)"
proof -
  from run_command_spawn_events[OF assms] have
    "create_subprocess w sc = Inr p" "sc_stdin sc = PIPE"
    "sc_stdout sc = (if capture_output cfg then PIPE else Inherit)"
    "sc_stderr sc = (if capture_output cfg then PIPE else Inherit)"
    by auto
  then show ?thesis
    by (auto simp: create_subprocess_def split: if_splits)
qed

text \<open>The pipeline ends in one of three ways: an exception of the step of standard input,
  an exception of the readers, or the wait for exit followed by the building of the
  result.\<close>

lemma run_command_rest_SomeD:
  assumes "run_command_rest b cfg w p = (es, Some res)"
  shows "(\<exists>e. write_stdin b w (resolve_input (input cfg)) p = (es, Some (Inl e)) \<and> res = Inl e)
       \<or> (\<exists>es0 b1 es1 e.
              write_stdin b w (resolve_input (input cfg)) p = (es0, Some (Inr b1))
            \<and> gather_reads b1 w (output_limit cfg) p = (es1, Some (Inl e))
            \<and> es = es0 @ es1 \<and> res = Inl e)
       \<or> (\<exists>es0 b1 es1 out err killed b2 rc b3.
              write_stdin b w (resolve_input (input cfg)) p = (es0, Some (Inr b1))
            \<and> gather_reads b1 w (output_limit cfg) p = (es1, Some (Inr (out, err, killed, b2)))
            \<and> proc_wait b2 w killed = ([Wait rc], Some (rc, b3))
            \<and> es = es0 @ es1 @ [Wait rc]
            \<and> res = make_result cfg rc out err)"
  using assms
  by (auto simp: run_command_rest_def split: prod.splits option.splits sum.splits
      dest: proc_wait_SomeD)

lemma run_command_rest_error:
  assumes "run_command_rest b cfg w p = (es, Some (Inl e))"
  shows "e = UnicodeDecodeError \<or> e = ProcessLookupError \<or> (\<exists>c. e = ConnectionError c)"
  using run_command_rest_SomeD[OF assms]
  by (auto dest: write_stdin_error gather_reads_error make_result_error[OF sym])

lemma run_command_timeout_falsy_no_timeout_error:
  assumes "\<not> truthy (timeout cfg)"
  shows "run_command_timeout fuel cfg w \<noteq> Some (es, Inl TimeoutError)"
  using assms
  by (auto simp: run_command_timeout_def split: prod.splits sum.splits option.splits
      dest: run_command_rest_error run_command_spawn_error)

lemma run_command_rest_result:
  assumes "run_command_rest b cfg w p = (es, Some (Inr r))"
  shows "\<exists>es0 b1 es1 out err killed b2 rc b3.
           write_stdin b w (resolve_input (input cfg)) p = (es0, Some (Inr b1))
         \<and> gather_reads b1 w (output_limit cfg) p = (es1, Some (Inr (out, err, killed, b2)))
         \<and> proc_wait b2 w killed = ([Wait rc], Some (rc, b3))
         \<and> es = es0 @ es1 @ [Wait rc]
         \<and> Inr r = make_result cfg rc out err"
  using run_command_rest_SomeD[OF assms] by auto


lemma run_command_rest_events:
  assumes "run_command_rest b cfg w p = (es, r)" and "e \<in> set es"
  shows "e = StdinDrain \<or> e = StdinClose \<or> e = StdinWaitClosed
       \<or> (\<exists>d. resolve_input (input cfg) = Some d \<and> e = StdinWrite d)
       \<or> ((stdout_pipe p \<noteq> None \<or> stderr_pipe p \<noteq> None) \<and> (e = Kill \<or> (\<exists>sid c. e = Read sid c)))
       \<or> (\<exists>rc. e = Wait rc)"
proof -
  obtain es0 r0 where w0: "write_stdin b w (resolve_input (input cfg)) p = (es0, r0)"
    by (cases "write_stdin b w (resolve_input (input cfg)) p")
  note ev0 = write_stdin_events[OF w0]
  consider (pending) "r0 = None" | (raised) x where "r0 = Some (Inl x)"
    | (completed) b1 where "r0 = Some (Inr b1)"
  proof (cases r0)
    case None
    then show ?thesis using that by simp
  next
    case (Some y)
    then show ?thesis using that by (cases y) simp_all
  qed
  then show ?thesis
  proof cases
    case pending
    with w0 assms have "e \<in> set es0"
      by (simp add: run_command_rest_def)
    with ev0 show ?thesis by blast
  next
    case raised
    with w0 assms have "e \<in> set es0"
      by (simp add: run_command_rest_def)
    with ev0 show ?thesis by blast
  next
    case completed
    obtain es1 r1 where g: "gather_reads b1 w (output_limit cfg) p = (es1, r1)"
      by (cases "gather_reads b1 w (output_limit cfg) p")
    note ev1 = gather_reads_events[OF g]
    have "e \<in> set es0 \<or> e \<in> set es1 \<or> (\<exists>rc. e = Wait rc)"
      using assms w0 completed g
      by (auto simp: run_command_rest_def split: option.splits prod.splits sum.splits
          dest: proc_wait_events)
    with ev0 ev1 show ?thesis by blast
  qed
qed


lemma run_command_timeout_events:
  assumes "run_command_timeout fuel cfg w = Some (es, out)" and "e \<in> set es"
  shows "(\<exists>sc. e = Spawn sc \<and> sc_env sc = os_environ w ++ env cfg
              \<and> sc_stdout sc = (if capture_output cfg then PIPE else Inherit)
              \<and> sc_stderr sc = (if capture_output cfg then PIPE else Inherit))
       \<or> e = StdinDrain \<or> e = StdinClose \<or> e = StdinWaitClosed
       \<or> (\<exists>d. resolve_input (input cfg) = Some d \<and> e = StdinWrite d)
       \<or> (capture_output cfg \<and> (\<exists>sid c. e = Read sid c))
       \<or> e = Kill \<or> (\<exists>rc. e = Wait rc)
       \<or> e = Terminate \<or> e = Sleep 2 \<or> e = LogWarning"
proof -
  from run_command_timeout_budget[OF assms(1)]
  consider (spawn_error) err where "run_command_spawn cfg w = (es, Inl err)"
    | (spawned) es0 p es1 r b where "run_command_spawn cfg w = (es0, Inr p)"
        "run_command_rest b cfg w p = (es1, r)"
        "set es \<subseteq> set es0 \<union> set es1 \<union> set (terminate_timed_out w)"
    by fastforce
  then show ?thesis
  proof cases
    case spawn_error
    from run_command_spawn_events[OF this] assms(2) show ?thesis by auto
  next
    case spawned
    from run_command_spawn_events[OF spawned(1)]
    obtain sc where sc: "es0 = [Spawn sc]" "create_subprocess w sc = Inr p"
      "sc_env sc = os_environ w ++ env cfg"
      "sc_stdout sc = (if capture_output cfg then PIPE else Inherit)"
      "sc_stderr sc = (if capture_output cfg then PIPE else Inherit)"
      by auto
    from sc(2,4,5) have pipes: "stdout_pipe p \<noteq> None \<or> stderr_pipe p \<noteq> None \<Longrightarrow> capture_output cfg"
      by (auto simp: create_subprocess_def split: if_splits)
    from spawned(3) assms(2)
    consider "e \<in> set es0" | "e \<in> set es1" | "e \<in> set (terminate_timed_out w)" by blast
    then show ?thesis
    proof cases
      case 1
      with sc show ?thesis by simp
    next
      case 2
      from run_command_rest_events[OF spawned(2) 2] pipes show ?thesis by blast
    next
      case 3
      from terminate_timed_out_events[OF 3] show ?thesis by blast
    qed
  qed
qed

lemma subprocess_result_shape:
  assumes "subprocess fuel var cfg w = Some (tr, Inr r)"
  shows "\<exists>sc p esw b1 es_out out k1 bo es_err err k2 be rc.
           tr = Acquire ''subprocesses'' (context_var_get w var) # TraceEnter (args cfg)
                  # Spawn sc # esw @ es_out @ es_err
                  @ [Wait rc, TraceExit, Release ''subprocesses'']
         \<and> run_command_spawn cfg w = ([Spawn sc], Inr p)
         \<and> write_stdin (if truthy (timeout cfg) then deadline w else fuel) w
              (resolve_input (input cfg)) p = (esw, Some (Inr b1))
         \<and> read_stream b1 (reader_kill_raises w Stdout) (output_limit cfg) Stdout (stdout_pipe p)
             = (es_out, Some (Inr (out, k1), bo))
         \<and> read_stream b1 (reader_kill_raises w Stderr) (output_limit cfg) Stderr (stderr_pipe p)
             = (es_err, Some (Inr (err, k2), be))
         \<and> (if k1 \<or> k2 then kill_status w else exit_status w) = Some rc
         \<and> make_result cfg rc out err = Inr r"
proof -
  let ?b = "if truthy (timeout cfg) then deadline w else fuel"
  from subprocess_SomeD[OF assms] obtain es where
    es: "run_command_timeout fuel cfg w = Some (es, Inr r)"
    and tr: "tr = Acquire ''subprocesses'' (context_var_get w var) # TraceEnter (args cfg) # es
                  @ [TraceExit, Release ''subprocesses'']"
    by blast
  from run_command_timeout_result[OF es] obtain es0 p es1 where
    sp: "run_command_spawn cfg w = (es0, Inr p)"
    and rest: "run_command_rest ?b cfg w p = (es1, Some (Inr r))"
    and es_eq: "es = es0 @ es1"
    by blast
  from run_command_spawn_events[OF sp] obtain sc where sc: "es0 = [Spawn sc]" by auto
  from run_command_rest_result[OF rest] obtain esw b1 esg out err killed b2 rc b3 where
    ws: "write_stdin ?b w (resolve_input (input cfg)) p = (esw, Some (Inr b1))"
    and ga: "gather_reads b1 w (output_limit cfg) p = (esg, Some (Inr (out, err, killed, b2)))"
    and pw: "proc_wait b2 w killed = ([Wait rc], Some (rc, b3))"
    and es1: "es1 = esw @ esg @ [Wait rc]"
    and res: "Inr r = make_result cfg rc out err"
    by blast
  from gather_reads_SomeD[OF ga] obtain es_out es_err k1 k2 bo be where
    ro: "read_stream b1 (reader_kill_raises w Stdout) (output_limit cfg) Stdout (stdout_pipe p)
           = (es_out, Some (Inr (out, k1), bo))"
    and re: "read_stream b1 (reader_kill_raises w Stderr) (output_limit cfg) Stderr (stderr_pipe p)
           = (es_err, Some (Inr (err, k2), be))"
    and esg: "esg = es_out @ es_err" and k: "killed = (k1 \<or> k2)"
    by blast
  from proc_wait_SomeD[OF pw] k
  have st: "(if k1 \<or> k2 then kill_status w else exit_status w) = Some rc" by simp
  have "tr = Acquire ''subprocesses'' (context_var_get w var) # TraceEnter (args cfg)
                  # Spawn sc # esw @ es_out @ es_err
                  @ [Wait rc, TraceExit, Release ''subprocesses'']"
    using tr es_eq sc es1 esg by simp
  with sp sc ws ro re st res[symmetric] show ?thesis by blast
qed

subsection \<open>Evaluating concrete invocations\<close>

lemma read_loop_unfold:
  "read_loop b kf lim sid acc s =
     (if b = 0 then ([], None)
      else
        (let (chunk, s') = stream_read 8192 s in
         if chunk = [] then ([Read sid chunk], Some (Inr (acc, False), b - 1))
         else
           (let output' = acc @ chunk in
            if limit_exceeded lim output' then
              (if kf then ([Read sid chunk, Kill], Some (Inl ProcessLookupError, b - 1))
               else ([Read sid chunk, Kill], Some (Inr (output', True), b - 1)))
            else (case read_loop (b - 1) kf lim sid output' s' of
                    (es, r) \<Rightarrow> (Read sid chunk # es, r)))))"
  by (cases b) (simp_all add: Let_def split: prod.split)

lemmas step_defs = subprocess_def run_command_timeout_def run_command_spawn_def
  create_subprocess_def run_command_rest_def write_stdin_def close_stdin_def gather_reads_def
  first_raised_def raised_at_def read_stream_def
  stream_read_def limit_exceeded_def proc_wait_def make_result_def decode_def truthy_def
  resolve_input_def concurrency_enter_def concurrency_exit_def
  terminate_timed_out_def continuation_def Let_def

lemmas run_defs = step_defs read_loop_unfold

lemma echo_limit: "context_var_get echo_world None = 4"
  by (simp add: context_var_get_def default_max_subprocesses_def echo_world_def)

lemma echo_run:
  "subprocess 5 var echo_cfg echo_world =
     Some (echo_trace (context_var_get echo_world var) echo_cfg echo_world @
           [StdinClose, StdinWaitClosed, Read Stdout [0x68, 0x69, 0x0A], Read Stdout [],
            Read Stderr [], Wait 0, TraceExit, Release ''subprocesses''],
           Inr (TextResult \<lparr>success = True, returncode = 0,
                            stdout = Str [0x68, 0x69, 0x0A], stderr = Str []\<rparr>))"
  by (simp add: run_defs echo_cfg_def echo_world_def echo_trace_def spawn_call_of_def)



lemma echo_timeout_zero_run:
  "subprocess 5 var (echo_cfg\<lparr>timeout := Some 0\<rparr>) echo_world =
     Some (echo_trace (context_var_get echo_world var) echo_cfg echo_world @
           [StdinClose, StdinWaitClosed, Read Stdout [0x68, 0x69, 0x0A], Read Stdout [],
            Read Stderr [], Wait 0, TraceExit, Release ''subprocesses''],
           Inr (TextResult \<lparr>success = True, returncode = 0,
                            stdout = Str [0x68, 0x69, 0x0A], stderr = Str []\<rparr>))"
  by (simp add: run_defs echo_cfg_def echo_world_def echo_trace_def spawn_call_of_def)

lemma echo_no_capture_run:
  "subprocess 5 var (echo_cfg\<lparr>capture_output := False\<rparr>) echo_world =
     Some ([Acquire ''subprocesses'' (context_var_get echo_world var),
            TraceEnter (Argv [''echo'', ''hi'']),
            Spawn (spawn_call_of (echo_cfg\<lparr>capture_output := False\<rparr>) echo_world False
                     ''echo'' [''hi'']),
            StdinClose, StdinWaitClosed, Wait 0, TraceExit, Release ''subprocesses''],
           Inr (TextResult \<lparr>success = True, returncode = 0, stdout = Str [], stderr = Str []\<rparr>))"
  by (simp add: run_defs echo_cfg_def echo_world_def spawn_call_of_def)

lemma echo_limit_run:
  "subprocess 5 var (echo_cfg\<lparr>output_limit := Some 2\<rparr>) echo_world =
     Some (echo_trace (context_var_get echo_world var) echo_cfg echo_world @
           [StdinClose, StdinWaitClosed, Read Stdout [0x68, 0x69, 0x0A], Kill,
            Read Stderr [], Wait (- 9), TraceExit, Release ''subprocesses''],
           Inr (TextResult \<lparr>success = False, returncode = - 9,
                            stdout = Str [0x68, 0x69, 0x0A], stderr = Str []\<rparr>))"
  by (simp add: run_defs echo_cfg_def echo_world_def echo_trace_def spawn_call_of_def)

lemma negative_limit_run:
  "subprocess 5 var (echo_cfg\<lparr>text_mode := False, output_limit := Some (- 1)\<rparr>)
       (echo_world\<lparr>child_stdout := replicate 8192 0x41 ## sconst []\<rparr>) =
     Some ([Acquire ''subprocesses''
              (context_var_get (echo_world\<lparr>child_stdout := replicate 8192 0x41 ## sconst []\<rparr>) var),
            TraceEnter (Argv [''echo'', ''hi'']),
            Spawn (spawn_call_of (echo_cfg\<lparr>text_mode := False, output_limit := Some (- 1)\<rparr>)
                     (echo_world\<lparr>child_stdout := replicate 8192 0x41 ## sconst []\<rparr>)
                     False ''echo'' [''hi'']),
            StdinClose, StdinWaitClosed, Read Stdout (replicate 8192 0x41), Kill,
            Read Stderr [], Wait (- 9), TraceExit, Release ''subprocesses''],
           Inr (BytesResult \<lparr>success = False, returncode = - 9,
                             stdout = replicate 8192 0x41, stderr = []\<rparr>))"
  by (simp add: run_defs echo_cfg_def echo_world_def spawn_call_of_def)



lemma echo_spawn:
  "run_command_spawn (echo_cfg\<lparr>timeout := t\<rparr>) echo_world =
     ([Spawn (spawn_call_of (echo_cfg\<lparr>timeout := t\<rparr>) echo_world False ''echo'' [''hi''])],
      Inr \<lparr>stdin_pipe = True, stdout_pipe = Some (child_stdout echo_world),
           stderr_pipe = Some (child_stderr echo_world)\<rparr>)"
  by (simp add: run_command_spawn_def create_subprocess_def spawn_call_of_def echo_cfg_def
      echo_world_def)

lemma echo_cut:
  "run_command_rest (deadline echo_world) (echo_cfg\<lparr>timeout := t\<rparr>) echo_world
     \<lparr>stdin_pipe = True, stdout_pipe = Some (child_stdout echo_world),
      stderr_pipe = Some (child_stderr echo_world)\<rparr> = ([StdinClose], None)"
  by (simp add: run_command_rest_def write_stdin_def close_stdin_def resolve_input_def
      echo_cfg_def echo_world_def)












lemma echo_terminate_raises_run:
  "subprocess 5 var (echo_cfg\<lparr>timeout := Some 1\<rparr>) (echo_world\<lparr>terminate_raises := True\<rparr>) =
     Some ([Acquire ''subprocesses'' (context_var_get (echo_world\<lparr>terminate_raises := True\<rparr>) var),
            TraceEnter (Argv [''echo'', ''hi'']),
            Spawn (spawn_call_of (echo_cfg\<lparr>timeout := Some 1\<rparr>)
                     (echo_world\<lparr>terminate_raises := True\<rparr>) False ''echo'' [''hi'']),
            StdinClose, Terminate, LogWarning, TraceExit, Release ''subprocesses''],
           Inl TimeoutError)"
  by (simp add: run_defs echo_cfg_def echo_world_def spawn_call_of_def)





lemma echo_wait_closed_raises_run:
  "subprocess 5 var echo_cfg (echo_world\<lparr>wait_closed_outcome := Raises BrokenPipeError\<rparr>) =
     Some (echo_trace
             (context_var_get (echo_world\<lparr>wait_closed_outcome := Raises BrokenPipeError\<rparr>) var)
             echo_cfg (echo_world\<lparr>wait_closed_outcome := Raises BrokenPipeError\<rparr>) @
           [StdinClose, StdinWaitClosed, TraceExit, Release ''subprocesses''],
           Inl (ConnectionError BrokenPipeError))"
  by (simp add: run_defs echo_cfg_def echo_world_def echo_trace_def spawn_call_of_def)

section \<open>The claims\<close>




text \<open>
  C2. With a truthy \<^verbatim>\<open>timeout\<close> (not \<open>None\<close>, not 0), when the pipeline does not finish
  before the deadline the call ends, whatever the caller's patience, with \<^verbatim>\<open>TimeoutError\<close>
  and no result, its last calls before leaving being the handler's: \<^verbatim>\<open>terminate\<close>, then
  two seconds of sleep, then \<^verbatim>\<open>kill\<close> exactly when the child has not exited by then; an
  exception raised by \<^verbatim>\<open>terminate\<close> or \<^verbatim>\<open>kill\<close> is logged and ends the sequence there.
  So unless signalling raised, the child has exited after the grace period or has been
  sent \<^verbatim>\<open>kill\<close>.
\<close>

theorem C2_timeout_terminates_child:
  assumes "truthy (timeout cfg)" and "run_command_spawn cfg w = (es0, Inr p)"
    and "run_command_rest (deadline w) cfg w p = (es1, None)"
  shows "subprocess fuel var cfg w =
           Some (Acquire ''subprocesses'' (context_var_get w var) # TraceEnter (args cfg)
                   # es0 @ es1 @ terminate_timed_out w @ [TraceExit, Release ''subprocesses''],
                 Inl TimeoutError)
       \<and> terminate_timed_out w =
           (if terminate_raises w then [Terminate, LogWarning]
            else if exited_in_grace w then [Terminate, Sleep 2]
            else if kill_raises w then [Terminate, Sleep 2, Kill, LogWarning]
            else [Terminate, Sleep 2, Kill])"
proof -
  from subprocess_I[OF run_command_timeout_expired[OF assms], where var = var]
  have "subprocess fuel var cfg w =
           Some (Acquire ''subprocesses'' (context_var_get w var) # TraceEnter (args cfg)
                   # es0 @ es1 @ terminate_timed_out w @ [TraceExit, Release ''subprocesses''],
                 Inl TimeoutError)"
    by simp
  moreover have "terminate_timed_out w =
           (if terminate_raises w then [Terminate, LogWarning]
            else if exited_in_grace w then [Terminate, Sleep 2]
            else if kill_raises w then [Terminate, Sleep 2, Kill, LogWarning]
            else [Terminate, Sleep 2, Kill])"
    by (simp add: terminate_timed_out_def)
  ultimately show ?thesis by blast
qed

theorem C2_counterexample:
  "timeout (echo_cfg\<lparr>timeout := Some 0\<rparr>) = Some 0
   \<and> snd (run_command_rest (deadline echo_world) (echo_cfg\<lparr>timeout := Some 0\<rparr>) echo_world
            \<lparr>stdin_pipe = True, stdout_pipe = Some (child_stdout echo_world),
             stderr_pipe = Some (child_stderr echo_world)\<rparr>) = None
   \<and> map_option snd (subprocess 5 None (echo_cfg\<lparr>timeout := Some 0\<rparr>) echo_world) =
       Some (Inr (TextResult \<lparr>success = True, returncode = 0,
                               stdout = Str [0x68, 0x69, 0x0A], stderr = Str []\<rparr>))
   \<and> map_option (\<lambda>(tr, out). (Sleep 2 \<in> set tr, Kill \<in> set tr, out))
         (subprocess 5 None (echo_cfg\<lparr>timeout := Some 1\<rparr>)
            (echo_world\<lparr>terminate_raises := True\<rparr>))
       = Some (False, False, Inl TimeoutError)"
  by (simp add: echo_timeout_zero_run echo_cut echo_terminate_raises_run)

theorem C2_witness:
  "subprocess 5 None (echo_cfg\<lparr>timeout := Some 1\<rparr>) echo_world =
     Some ([Acquire ''subprocesses'' 4, TraceEnter (Argv [''echo'', ''hi'']),
            Spawn (spawn_call_of (echo_cfg\<lparr>timeout := Some 1\<rparr>) echo_world False ''echo'' [''hi'']),
            StdinClose, Terminate, Sleep 2, Kill, TraceExit, Release ''subprocesses''],
           Inl TimeoutError)"
proof -
  have t: "truthy (timeout (echo_cfg\<lparr>timeout := Some 1\<rparr>))" by (simp add: truthy_def)
  have h: "terminate_raises echo_world = False" "exited_in_grace echo_world = False"
    "kill_raises echo_world = False" by (simp_all add: echo_world_def)
  have a: "args (echo_cfg\<lparr>timeout := Some 1\<rparr>) = Argv [''echo'', ''hi'']"
    by (simp add: echo_cfg_def)
  from C2_timeout_terminates_child[OF t echo_spawn echo_cut, where fuel = 5 and var = None]
  show ?thesis by (simp add: h a echo_limit)
qed

text \<open>
  C3. With output captured and \<^verbatim>\<open>output_limit\<close> set to \<open>L\<close>, a returned result holds for
  each stream exactly the chunks that were read from it, the one that crossed the limit
  included, and never more than \<open>max L 0 + 8192\<close> bytes; a reader calls \<^verbatim>\<open>kill\<close> only
  when its stream has more than \<open>L\<close> bytes. For \<open>L \<ge> 0\<close> this is the bound \<open>L + 8192\<close>, a
  stream with more than \<open>L\<close> bytes had the child killed, and everything before the last
  chunk of a stream was within the limit: the reader stopped at the first chunk that
  crossed it. The bound \<open>L + 8192\<close> itself fails for a negative limit: with \<open>L = -1\<close> a first
  chunk of 8192 bytes is retained. For \<open>L < 0\<close> the first chunk that is not empty is the
  last one and has the child killed.
\<close>

theorem C3_output_limit_bound:
  assumes "subprocess fuel var cfg w = Some (tr, Inr r)"
    and "capture_output cfg" and "output_limit cfg = Some L"
  shows "int (length (result_stdout r)) \<le> max L 0 + 8192
       \<and> int (length (result_stderr r)) \<le> max L 0 + 8192
       \<and> result_stdout r = concat (chunks_read Stdout tr)
       \<and> result_stderr r = concat (chunks_read Stderr tr)
       \<and> (Kill \<in> set tr \<longrightarrow> L < int (length (result_stdout r)) \<or> L < int (length (result_stderr r)))
       \<and> (0 \<le> L \<longrightarrow>
             int (length (result_stdout r)) \<le> L + 8192
           \<and> int (length (result_stderr r)) \<le> L + 8192
           \<and> (L < int (length (result_stdout r)) \<or> L < int (length (result_stderr r))
                \<longrightarrow> Kill \<in> set tr)
           \<and> int (length (concat (butlast (chunks_read Stdout tr)))) \<le> L
           \<and> int (length (concat (butlast (chunks_read Stderr tr)))) \<le> L)
       \<and> (L < 0 \<longrightarrow>
             (result_stdout r \<noteq> [] \<or> result_stderr r \<noteq> [] \<longrightarrow> Kill \<in> set tr)
           \<and> length (concat (butlast (chunks_read Stdout tr))) = 0
           \<and> length (concat (butlast (chunks_read Stderr tr))) = 0)"
proof -
  from subprocess_result_shape[OF assms(1)]
  obtain sc p esw b1 es_out out k1 bo es_err err k2 be rc where
    tr: "tr = Acquire ''subprocesses'' (context_var_get w var) # TraceEnter (args cfg)
                  # Spawn sc # esw @ es_out @ es_err
                  @ [Wait rc, TraceExit, Release ''subprocesses'']"
    and sp: "run_command_spawn cfg w = ([Spawn sc], Inr p)"
    and ws: "write_stdin (if truthy (timeout cfg) then deadline w else fuel) w
              (resolve_input (input cfg)) p = (esw, Some (Inr b1))"
    and ro: "read_stream b1 (reader_kill_raises w Stdout) (output_limit cfg) Stdout (stdout_pipe p)
               = (es_out, Some (Inr (out, k1), bo))"
    and re: "read_stream b1 (reader_kill_raises w Stderr) (output_limit cfg) Stderr (stderr_pipe p)
               = (es_err, Some (Inr (err, k2), be))"
    and res: "make_result cfg rc out err = Inr r"
    by blast
  from spawned_pipes[OF sp] assms(2) have pipes:
    "stdout_pipe p = Some (child_stdout w)" "stderr_pipe p = Some (child_stderr w)" by simp_all
  from ro re pipes assms(3) have
    lo: "read_loop b1 (reader_kill_raises w Stdout) (Some L) Stdout [] (child_stdout w)
           = (es_out, Some (Inr (out, k1), bo))"
    and le: "read_loop b1 (reader_kill_raises w Stderr) (Some L) Stderr [] (child_stderr w)
           = (es_err, Some (Inr (err, k2), be))"
    by (simp_all add: read_stream_def)
  from make_result_InrD[OF res] assms(2) have
    r_out: "result_stdout r = out" and r_err: "result_stderr r = err" by simp_all
  have c_out: "chunks_read Stdout tr = chunks_read Stdout es_out"
    using tr chunks_read_stdin[OF ws] chunks_read_stream[OF re, of Stdout] by simp
  have c_err: "chunks_read Stderr tr = chunks_read Stderr es_err"
    using tr chunks_read_stdin[OF ws] chunks_read_stream[OF ro, of Stderr] by simp
  have kill: "Kill \<in> set tr \<longleftrightarrow> k1 \<or> k2"
    using tr kill_not_stdin[OF ws] read_stream_killed[OF ro] read_stream_killed[OF re] by auto
  have z: "int (length ([]::bytes)) \<le> max L 0" by simp
  note io = read_loop_limit[OF lo z] and ie = read_loop_limit[OF le z]
  have bound: "int (length (result_stdout r)) \<le> max L 0 + 8192"
      "int (length (result_stderr r)) \<le> max L 0 + 8192"
    using read_loop_bound[OF lo] read_loop_bound[OF le] r_out r_err by simp_all
  have retained: "result_stdout r = concat (chunks_read Stdout tr)"
      "result_stderr r = concat (chunks_read Stderr tr)"
    using read_loop_retains[OF lo] read_loop_retains[OF le] r_out r_err c_out c_err by simp_all
  have killed: "Kill \<in> set tr \<longrightarrow>
      L < int (length (result_stdout r)) \<or> L < int (length (result_stderr r))"
    using kill io ie r_out r_err by auto
  have nonneg: "int (length (result_stdout r)) \<le> L + 8192
           \<and> int (length (result_stderr r)) \<le> L + 8192
           \<and> (L < int (length (result_stdout r)) \<or> L < int (length (result_stderr r))
                \<longrightarrow> Kill \<in> set tr)
           \<and> int (length (concat (butlast (chunks_read Stdout tr)))) \<le> L
           \<and> int (length (concat (butlast (chunks_read Stderr tr)))) \<le> L"
    if "0 \<le> L"
  proof -
    from that have m: "max L 0 = L" by simp
    from io ie have "\<not> k1 \<longrightarrow> int (length out) \<le> L" "\<not> k2 \<longrightarrow> int (length err) \<le> L"
      "int (length (concat (butlast (chunks_read Stdout es_out)))) \<le> L"
      "int (length (concat (butlast (chunks_read Stderr es_err)))) \<le> L"
      unfolding m by simp_all
    with bound kill r_out r_err c_out c_err show ?thesis
      unfolding m by auto
  qed
  have negative: "(result_stdout r \<noteq> [] \<or> result_stderr r \<noteq> [] \<longrightarrow> Kill \<in> set tr)
           \<and> length (concat (butlast (chunks_read Stdout tr))) = 0
           \<and> length (concat (butlast (chunks_read Stderr tr))) = 0"
    if "L < 0"
  proof -
    from that have m: "max L 0 = 0" by simp
    from io ie have "\<not> k1 \<longrightarrow> int (length out) \<le> 0" "\<not> k2 \<longrightarrow> int (length err) \<le> 0"
      "int (length (concat (butlast (chunks_read Stdout es_out)))) \<le> 0"
      "int (length (concat (butlast (chunks_read Stderr es_err)))) \<le> 0"
      unfolding m by simp_all
    with kill r_out r_err c_out c_err show ?thesis
      by auto
  qed
  from bound retained killed nonneg negative show ?thesis by blast
qed

theorem C3_counterexample:
  "capture_output (echo_cfg\<lparr>text_mode := False, output_limit := Some (- 1)\<rparr>)
   \<and> map_option snd
       (subprocess 5 None (echo_cfg\<lparr>text_mode := False, output_limit := Some (- 1)\<rparr>)
          (echo_world\<lparr>child_stdout := replicate 8192 0x41 ## sconst []\<rparr>)) =
     Some (Inr (BytesResult \<lparr>success = False, returncode = - 9,
                              stdout = replicate 8192 0x41, stderr = []\<rparr>))
   \<and> \<not> int (length (replicate 8192 (0x41 :: byte))) \<le> - 1 + 8192"
proof (intro conjI)
  show "capture_output (echo_cfg\<lparr>text_mode := False, output_limit := Some (- 1)\<rparr>)"
    by (simp add: echo_cfg_def)
  show "map_option snd
       (subprocess 5 None (echo_cfg\<lparr>text_mode := False, output_limit := Some (- 1)\<rparr>)
          (echo_world\<lparr>child_stdout := replicate 8192 0x41 ## sconst []\<rparr>)) =
     Some (Inr (BytesResult \<lparr>success = False, returncode = - 9,
                              stdout = replicate 8192 0x41, stderr = []\<rparr>))"
    by (simp add: negative_limit_run)
  show "\<not> int (length (replicate 8192 (0x41 :: byte))) \<le> - 1 + 8192"
    by simp
qed

theorem C3_witness:
  "\<exists>tr r. subprocess 5 None (echo_cfg\<lparr>output_limit := Some 2\<rparr>) echo_world = Some (tr, Inr r)
     \<and> result_stdout r = [0x68, 0x69, 0x0A]
     \<and> int (length (result_stdout r)) \<le> 2 + 8192
     \<and> result_stdout r = concat (chunks_read Stdout tr)
     \<and> Kill \<in> set tr"
proof -
  have cap: "capture_output (echo_cfg\<lparr>output_limit := Some 2\<rparr>)" by (simp add: echo_cfg_def)
  have lim: "output_limit (echo_cfg\<lparr>output_limit := Some 2\<rparr>) = Some 2" by simp
  note c3 = C3_output_limit_bound[OF echo_limit_run[of None] cap lim]
  have out: "result_stdout (TextResult \<lparr>success = False, returncode = - 9,
                            stdout = Str [0x68, 0x69, 0x0A], stderr = Str []\<rparr>) = [0x68, 0x69, 0x0A]"
    by (simp add: result_stdout_def encode_def)
  have "(0::int) \<le> 2" by simp
  with c3 out have "int (length (result_stdout (TextResult \<lparr>success = False, returncode = - 9,
                            stdout = Str [0x68, 0x69, 0x0A], stderr = Str []\<rparr>))) \<le> 2 + 8192"
    "result_stdout (TextResult \<lparr>success = False, returncode = - 9,
                            stdout = Str [0x68, 0x69, 0x0A], stderr = Str []\<rparr>)
       = concat (chunks_read Stdout (echo_trace (context_var_get echo_world None) echo_cfg echo_world @
           [StdinClose, StdinWaitClosed, Read Stdout [0x68, 0x69, 0x0A], Kill,
            Read Stderr [], Wait (- 9), TraceExit, Release ''subprocesses'']))"
    "Kill \<in> set (echo_trace (context_var_get echo_world None) echo_cfg echo_world @
           [StdinClose, StdinWaitClosed, Read Stdout [0x68, 0x69, 0x0A], Kill,
            Read Stderr [], Wait (- 9), TraceExit, Release ''subprocesses''])"
    by simp_all
  with echo_limit_run[of None] out show ?thesis by blast
qed



text \<open>
  C5. With \<^verbatim>\<open>capture_output=False\<close> the child is spawned with inherited \<^verbatim>\<open>stdout\<close> and
  \<^verbatim>\<open>stderr\<close>, no pipe is ever read, and a returned result has empty \<^verbatim>\<open>stdout\<close> and
  \<^verbatim>\<open>stderr\<close> of the kind the mode asks for, whatever the child wrote.
\<close>

theorem C5_no_capture_empty_streams:
  assumes "\<not> capture_output cfg" and "subprocess fuel var cfg w = Some (tr, out)"
  shows "(\<forall>sid c. Read sid c \<notin> set tr)
       \<and> (\<forall>sc. Spawn sc \<in> set tr \<longrightarrow> sc_stdout sc = Inherit \<and> sc_stderr sc = Inherit)
       \<and> (\<forall>r. out = Inr r \<longrightarrow>
             result_stdout r = [] \<and> result_stderr r = []
           \<and> (if text_mode cfg
              then \<exists>t. r = TextResult t \<and> stdout t = Str [] \<and> stderr t = Str []
              else \<exists>t. r = BytesResult t \<and> stdout t = [] \<and> stderr t = []))"
proof -
  from subprocess_SomeD[OF assms(2)] obtain es where
    es: "run_command_timeout fuel cfg w = Some (es, out)"
    and tr: "tr = Acquire ''subprocesses'' (context_var_get w var) # TraceEnter (args cfg) # es
                  @ [TraceExit, Release ''subprocesses'']"
    by blast
  note ev = run_command_timeout_events[OF es]
  have reads: "Read sid c \<notin> set tr" for sid c
  proof
    assume "Read sid c \<in> set tr"
    with tr have "Read sid c \<in> set es" by simp
    from ev[OF this] assms(1) show False by simp
  qed
  have spawn: "sc_stdout sc = Inherit \<and> sc_stderr sc = Inherit" if "Spawn sc \<in> set tr" for sc
  proof -
    from that tr have "Spawn sc \<in> set es" by simp
    from ev[OF this] assms(1) show ?thesis by simp
  qed
  have result: "result_stdout r = [] \<and> result_stderr r = []
           \<and> (if text_mode cfg
              then \<exists>t. r = TextResult t \<and> stdout t = Str [] \<and> stderr t = Str []
              else \<exists>t. r = BytesResult t \<and> stdout t = [] \<and> stderr t = [])"
    if "out = Inr r" for r
  proof -
    from es that run_command_timeout_result obtain es0 p es1 b where
      "run_command_rest b cfg w p = (es1, Some (Inr r))" by blast
    from run_command_rest_result[OF this] obtain rc ou er where
      "Inr r = make_result cfg rc ou er" by blast
    with make_result_no_capture[OF assms(1), of rc ou er]
    show ?thesis
      by (auto simp: result_stdout_def result_stderr_def encode_def)
  qed
  from reads spawn result show ?thesis by blast
qed

theorem C5_witness:
  "\<exists>tr. subprocess 5 None (echo_cfg\<lparr>capture_output := False\<rparr>) echo_world =
          Some (tr, Inr (TextResult \<lparr>success = True, returncode = 0,
                                     stdout = Str [], stderr = Str []\<rparr>))
       \<and> Read Stdout [0x68, 0x69, 0x0A] \<notin> set tr"
proof -
  have nc: "\<not> capture_output (echo_cfg\<lparr>capture_output := False\<rparr>)" by simp
  from C5_no_capture_empty_streams[OF nc echo_no_capture_run[of None]]
    echo_no_capture_run[of None]
  show ?thesis by blast
qed




text \<open>
  C7. Whenever a child is spawned, its environment is the parent's environment overridden
  by the caller's \<^verbatim>\<open>env\<close>: an inherited variable that \<^verbatim>\<open>env\<close> does not name is kept, and
  for a key of \<^verbatim>\<open>env\<close> the caller's value wins. A child is spawned unless \<^verbatim>\<open>args\<close> is the
  empty list.
\<close>

theorem C7_environment_merge:
  assumes "subprocess fuel var cfg w = Some (tr, out)"
  shows "(\<forall>sc. Spawn sc \<in> set tr \<longrightarrow>
            sc_env sc = os_environ w ++ env cfg
          \<and> (\<forall>k. k \<notin> dom (env cfg) \<longrightarrow> sc_env sc k = os_environ w k)
          \<and> (\<forall>k v. env cfg k = Some v \<longrightarrow> sc_env sc k = Some v))
       \<and> (args cfg \<noteq> Argv [] \<longrightarrow> (\<exists>sc. Spawn sc \<in> set tr))"
proof -
  from subprocess_SomeD[OF assms] obtain es where
    es: "run_command_timeout fuel cfg w = Some (es, out)"
    and tr: "tr = Acquire ''subprocesses'' (context_var_get w var) # TraceEnter (args cfg) # es
                  @ [TraceExit, Release ''subprocesses'']"
    by blast
  have merge: "sc_env sc = os_environ w ++ env cfg" if "Spawn sc \<in> set tr" for sc
  proof -
    from that tr have "Spawn sc \<in> set es" by simp
    from run_command_timeout_events[OF es this] show ?thesis by auto
  qed
  have spawned: "\<exists>sc. Spawn sc \<in> set tr" if "args cfg \<noteq> Argv []"
  proof -
    obtain es0 r0 where sp: "run_command_spawn cfg w = (es0, r0)"
      by (cases "run_command_spawn cfg w")
    from run_command_spawn_events[OF sp] that obtain sc where "es0 = [Spawn sc]" by auto
    moreover from run_command_timeout_budget[OF es] sp have "set es0 \<subseteq> set es" by auto
    ultimately show ?thesis using tr by auto
  qed
  show ?thesis
    using merge spawned by (auto simp: map_add_def domIff split: option.splits)
qed

theorem C7_witness:
  "\<exists>tr out sc. subprocess 5 None echo_cfg echo_world = Some (tr, out) \<and> Spawn sc \<in> set tr
     \<and> sc_env sc ''HOME'' = Some ''/root'' \<and> sc_env sc ''LANG'' = Some ''C''"
proof -
  note c7 = C7_environment_merge[OF echo_run[of None]]
  have "args echo_cfg \<noteq> Argv []" by (simp add: echo_cfg_def)
  with c7 obtain sc where sc: "Spawn sc \<in> set (echo_trace (context_var_get echo_world None) echo_cfg echo_world @
           [StdinClose, StdinWaitClosed, Read Stdout [0x68, 0x69, 0x0A], Read Stdout [],
            Read Stderr [], Wait 0, TraceExit, Release ''subprocesses''])"
    by blast
  have home: "''HOME'' \<notin> dom (env echo_cfg)" and lang: "env echo_cfg ''LANG'' = Some ''C''"
    by (simp_all add: echo_cfg_def)
  from c7 sc home have "sc_env sc ''HOME'' = os_environ echo_world ''HOME''" by blast
  then have 1: "sc_env sc ''HOME'' = Some ''/root''" by (simp add: echo_world_def)
  from c7 sc lang have 2: "sc_env sc ''LANG'' = Some ''C''" by blast
  from echo_run[of None] sc 1 2 show ?thesis by blast
qed






text \<open>
  C10. A timeout of 0 is not a timeout: the call with \<^verbatim>\<open>timeout=0\<close> is the call with
  \<^verbatim>\<open>timeout=None\<close>, whatever the world; the moment at which a deadline would fire has no
  influence on it; and it never raises \<^verbatim>\<open>TimeoutError\<close>.
\<close>

theorem C10_timeout_zero_is_no_timeout:
  "subprocess fuel var (cfg\<lparr>timeout := Some 0\<rparr>) w = subprocess fuel var (cfg\<lparr>timeout := None\<rparr>) w
   \<and> subprocess fuel var (cfg\<lparr>timeout := Some 0\<rparr>) (w\<lparr>deadline := d\<rparr>)
       = subprocess fuel var (cfg\<lparr>timeout := Some 0\<rparr>) w
   \<and> (\<forall>tr. subprocess fuel var (cfg\<lparr>timeout := Some 0\<rparr>) w \<noteq> Some (tr, Inl TimeoutError))"
proof (intro conjI allI)
  show "subprocess fuel var (cfg\<lparr>timeout := Some 0\<rparr>) w = subprocess fuel var (cfg\<lparr>timeout := None\<rparr>) w"
    by (rule subprocess_timeout_irrelevant) (simp_all add: truthy_def)
next
  show "subprocess fuel var (cfg\<lparr>timeout := Some 0\<rparr>) (w\<lparr>deadline := d\<rparr>)
       = subprocess fuel var (cfg\<lparr>timeout := Some 0\<rparr>) w"
    by (simp add: subprocess_def run_command_timeout_falsy truthy_def
        run_command_rest_deadline_irrelevant run_command_spawn_deadline_irrelevant
        context_var_get_deadline_irrelevant cong: option.case_cong prod.case_cong sum.case_cong)
next
  fix tr
  have "\<not> truthy (timeout (cfg\<lparr>timeout := Some 0\<rparr>))" by (simp add: truthy_def)
  from run_command_timeout_falsy_no_timeout_error[OF this]
  show "subprocess fuel var (cfg\<lparr>timeout := Some 0\<rparr>) w \<noteq> Some (tr, Inl TimeoutError)"
    by (auto simp: subprocess_def split: option.splits)
qed

end
